theory Spec2Isabelle
  imports Main
begin

section \<open>The response sink\<close>

text \<open>
  The handlers of the repository write to an \<^verbatim>\<open>http.ResponseWriter\<close>. The writer modelled
  here is \<^verbatim>\<open>httptest.ResponseRecorder\<close>, the sink the repository's own tests hand to
  \<^verbatim>\<open>ServeHTTP\<close>: a status code (200 until one is written), the live header map, the
  snapshot of the headers taken when the status is written, and the body.
  A header is a map from (canonical) names to value lists, as \<^verbatim>\<open>http.Header\<close> is.
  A call that panics in Go returns \<open>Inl\<close> of the panic here.
\<close>

datatype panic =
    InvalidWriteHeaderCode int
  | NilMapAssignment
  | HandlerPanic string

type_synonym Header = "string \<rightharpoonup> string list"

definition Header_Set :: "Header \<Rightarrow> string \<Rightarrow> string \<Rightarrow> Header" where
  "Header_Set h k v = h(k \<mapsto> [v])"

definition Header_Get :: "Header \<Rightarrow> string \<Rightarrow> string" where
  "Header_Get h k = (case h k of None \<Rightarrow> [] | Some [] \<Rightarrow> [] | Some (v # vs) \<Rightarrow> v)"

record ResponseRecorder =
  Code :: int
  HeaderMap :: Header
  Body :: string
  wroteHeader :: bool
  snapHeader :: "Header option"

definition NewRecorder :: ResponseRecorder where
  "NewRecorder = \<lparr>Code = 200, HeaderMap = Map.empty, Body = [], wroteHeader = False,
     snapHeader = None\<rparr>"

definition StatusOK :: int where "StatusOK = 200"
definition StatusCreated :: int where "StatusCreated = 201"
definition StatusNotFound :: int where "StatusNotFound = 404"
definition StatusInternalServerError :: int where "StatusInternalServerError = 500"

text \<open>
  \<^verbatim>\<open>WriteHeader\<close>: a second call is ignored; a code outside 100..999 panics
  (\<^verbatim>\<open>checkWriteHeaderCode\<close>); otherwise the code is recorded and the headers are snapshot.
\<close>

definition WriteHeader :: "ResponseRecorder \<Rightarrow> int \<Rightarrow> panic + ResponseRecorder" where
  "WriteHeader rw code =
     (if wroteHeader rw then Inr rw
      else if code < 100 \<or> code > 999 then Inl (InvalidWriteHeaderCode code)
      else Inr (rw\<lparr>Code := code, wroteHeader := True, snapHeader := Some (HeaderMap rw)\<rparr>))"

text \<open>
  \<^verbatim>\<open>bodyAllowedForStatus\<close>: a response with a status 1xx, 204 or 304 has no body.
\<close>

definition bodyAllowedForStatus :: "int \<Rightarrow> bool" where
  "bodyAllowedForStatus status =
     (if 100 \<le> status \<and> status \<le> 199 then False
      else if status = 204 then False
      else if status = 304 then False
      else True)"

text \<open>
  \<^verbatim>\<open>Write\<close>: writes the status 200 first when none was written, then appends to the body.
  The recorder records the bytes also when the status allows no body; it then returns
  \<^verbatim>\<open>http.ErrBodyNotAllowed\<close>: the flag returned says whether \<^verbatim>\<open>err != nil\<close>.
  When no Content-Type is set the recorder adds the one it sniffs from the data; every write
  of this repository sets Content-Type before, and the sniffed value is not modelled (the
  header is then left as it is).
\<close>

definition Write :: "ResponseRecorder \<Rightarrow> string \<Rightarrow> panic + (ResponseRecorder \<times> bool)" where
  "Write rw buf =
     (case WriteHeader rw 200 of
        Inl p \<Rightarrow> Inl p
      | Inr rw1 \<Rightarrow>
          (let rw2 = rw1\<lparr>Body := Body rw1 @ buf\<rparr>
           in Inr (rw2, \<not> bodyAllowedForStatus (Code rw2))))"

definition newline :: string where
  "newline = [CHR 0x0A]"

text \<open>
  \<^verbatim>\<open>http.Error(w, error, code)\<close>: plain-text headers, the status, the message and a newline;
  the error of the write (\<^verbatim>\<open>fmt.Fprintln\<close>) is dropped.
  \<^verbatim>\<open>http.NotFound\<close> is \<^verbatim>\<open>Error(w, "404 page not found", StatusNotFound)\<close>.
\<close>

definition Error :: "ResponseRecorder \<Rightarrow> string \<Rightarrow> int \<Rightarrow> panic + ResponseRecorder" where
  "Error w msg code =
     (let w1 = w\<lparr>HeaderMap := Header_Set (HeaderMap w) ''Content-Type'' ''text/plain; charset=utf-8''\<rparr>;
          w2 = w1\<lparr>HeaderMap := Header_Set (HeaderMap w1) ''X-Content-Type-Options'' ''nosniff''\<rparr>
      in case WriteHeader w2 code of
           Inl p \<Rightarrow> Inl p
         | Inr w3 \<Rightarrow>
             (case Write w3 (msg @ newline) of
                Inl p \<Rightarrow> Inl p
              | Inr (w4, err) \<Rightarrow> Inr w4))"

record URL =
  Path :: string

record Request =
  Method :: string
  URL :: URL

definition NotFound :: "ResponseRecorder \<Rightarrow> Request \<Rightarrow> panic + ResponseRecorder" where
  "NotFound w req = Error w ''404 page not found'' StatusNotFound"

section \<open>Package httpcontext\<close>

record Context =
  Writer :: ResponseRecorder
  Request :: Request

text \<open>
  \<^verbatim>\<open>json.NewEncoder(w).Encode(data)\<close>: the value is marshalled first; an error is returned
  with nothing written; otherwise the bytes and a newline are written, and the error of that
  write is the result. The marshaller of \<^verbatim>\<open>encoding/json\<close> is the parameter \<open>marshal\<close>
  (\<open>None\<close> is its error); the flag returned says whether \<^verbatim>\<open>err != nil\<close>.
\<close>

definition Encode ::
  "('p \<Rightarrow> string option) \<Rightarrow> ResponseRecorder \<Rightarrow> 'p \<Rightarrow> panic + (ResponseRecorder \<times> bool)" where
  "Encode marshal w data =
     (case marshal data of
        None \<Rightarrow> Inr (w, True)
      | Some b \<Rightarrow>
          (case Write w (b @ newline) of
             Inl p \<Rightarrow> Inl p
           | Inr (w1, err) \<Rightarrow> Inr (w1, err)))"

definition JSON ::
  "('p \<Rightarrow> string option) \<Rightarrow> Context \<Rightarrow> int \<Rightarrow> 'p \<Rightarrow> panic + ResponseRecorder" where
  "JSON marshal c statusCode data =
     (let w0 = Writer c;
          w1 = w0\<lparr>HeaderMap := Header_Set (HeaderMap w0) ''Content-Type'' ''application/json''\<rparr>
      in case WriteHeader w1 statusCode of
           Inl p \<Rightarrow> Inl p
         | Inr w2 \<Rightarrow>
             (case Encode marshal w2 data of
                Inl p \<Rightarrow> Inl p
              | Inr (w3, err) \<Rightarrow>
                  if err then Error w3 ''Error encoding JSON response'' StatusInternalServerError
                  else Inr w3))"

text \<open>
  \<^verbatim>\<open>String\<close>: \<open>formatted\<close> is the result of \<^verbatim>\<open>fmt.Sprintf(format, values...)\<close>; the error
  of the write is dropped.
\<close>

definition String :: "Context \<Rightarrow> int \<Rightarrow> string \<Rightarrow> panic + ResponseRecorder" where
  "String c statusCode formatted =
     (let w0 = Writer c;
          w1 = w0\<lparr>HeaderMap := Header_Set (HeaderMap w0) ''Content-Type'' ''text/plain; charset=utf-8''\<rparr>
      in case WriteHeader w1 statusCode of
           Inl p \<Rightarrow> Inl p
         | Inr w2 \<Rightarrow>
             (case Write w2 formatted of
                Inl p \<Rightarrow> Inl p
              | Inr (w3, err) \<Rightarrow> Inr w3))"

definition Status :: "Context \<Rightarrow> int \<Rightarrow> panic + ResponseRecorder" where
  "Status c statusCode = WriteHeader (Writer c) statusCode"

section \<open>Package router\<close>

text \<open>
  A handler receives the context and may change the sink and anything else it has captured:
  \<open>'u\<close> is the state of the rest of the program. It returns the sink and that state, or panics.
\<close>

type_synonym 'u HandlerFunc = "Context \<Rightarrow> 'u \<Rightarrow> panic + (ResponseRecorder \<times> 'u)"

text \<open>
  The route table is a map of maps; \<open>None\<close> is the nil map of a \<^verbatim>\<open>Router\<close> that was not made
  by \<^verbatim>\<open>New\<close>. A nil inner map reads like an empty one and is replaced by \<^verbatim>\<open>addRoute\<close>, so
  both are \<open>Map.empty\<close>. The mutex is not a field of the model: every acquire and release is
  an event of the trace that each operation returns, in the order the code performs them.
\<close>

record 'u Router =
  routes :: "(string \<rightharpoonup> (string \<rightharpoonup> 'u HandlerFunc)) option"

datatype 'u event =
    EvLock
  | EvUnlock
  | EvRLock
  | EvRUnlock
  | EvLog string
  | EvInvoke "'u HandlerFunc" Context

definition New :: "'u Router" where
  "New = \<lparr>routes = Some Map.empty\<rparr>"

definition addRoute ::
  "'u Router \<Rightarrow> string \<Rightarrow> string \<Rightarrow> 'u HandlerFunc \<Rightarrow> panic + ('u Router \<times> 'u event list)" where
  "addRoute r method path handler =
     (case routes r of
        None \<Rightarrow> Inl NilMapAssignment
      | Some t \<Rightarrow>
          (let inner = (case t method of None \<Rightarrow> Map.empty | Some pathHandlers \<Rightarrow> pathHandlers)
           in Inr (r\<lparr>routes := Some (t(method \<mapsto> inner(path \<mapsto> handler)))\<rparr>,
                   [EvLock, EvLog (''Registered route: '' @ method @ '' '' @ path), EvUnlock])))"

definition GET :: "'u Router \<Rightarrow> string \<Rightarrow> 'u HandlerFunc \<Rightarrow> panic + ('u Router \<times> 'u event list)" where
  "GET r path handler = addRoute r ''GET'' path handler"

definition POST :: "'u Router \<Rightarrow> string \<Rightarrow> 'u HandlerFunc \<Rightarrow> panic + ('u Router \<times> 'u event list)" where
  "POST r path handler = addRoute r ''POST'' path handler"

text \<open>
  \<^verbatim>\<open>ServeHTTP\<close> returns the router as it leaves it, the trace, and what the request ends with:
  the sink and the program state, or a panic. The deferred \<^verbatim>\<open>RUnlock\<close> is the last event on
  every path, also when the handler panics.
\<close>

definition ServeHTTP ::
  "'u Router \<Rightarrow> ResponseRecorder \<Rightarrow> Request \<Rightarrow> 'u \<Rightarrow>
     'u Router \<times> 'u event list \<times> (panic + (ResponseRecorder \<times> 'u))" where
  "ServeHTTP r w req u =
     (case (case routes r of None \<Rightarrow> None | Some t \<Rightarrow> t (Method req)) of
        None \<Rightarrow>
          (r, [EvRLock] @ [EvRUnlock], map_sum id (\<lambda>w'. (w', u)) (NotFound w req))
      | Some pathHandlers \<Rightarrow>
          (case pathHandlers (Path (URL req)) of
             None \<Rightarrow>
               (r, [EvRLock] @ [EvRUnlock], map_sum id (\<lambda>w'. (w', u)) (NotFound w req))
           | Some handler \<Rightarrow>
               (let ctx = \<lparr>Writer = w, Request = req\<rparr>
                in (r, [EvRLock] @ [EvInvoke handler ctx] @ [EvRUnlock], handler ctx u))))"

text \<open>The handler registered for a pair, if any: what the two lookups of \<^verbatim>\<open>ServeHTTP\<close> find.\<close>

definition route_of :: "'u Router \<Rightarrow> string \<Rightarrow> string \<Rightarrow> 'u HandlerFunc option" where
  "route_of r method path =
     (case routes r of
        None \<Rightarrow> None
      | Some t \<Rightarrow> (case t method of None \<Rightarrow> None | Some pathHandlers \<Rightarrow> pathHandlers path))"

text \<open>The handler invocations of a trace, in order.\<close>

fun invoked :: "'u event list \<Rightarrow> ('u HandlerFunc \<times> Context) list" where
  "invoked [] = []"
| "invoked (EvInvoke h c # es) = (h, c) # invoked es"
| "invoked (e # es) = invoked es"



subsection \<open>The handlers of the router's tests\<close>

text \<open>
  \<^verbatim>\<open>testHandler\<close> of \<^verbatim>\<open>TestRouter_ServeHTTP_Found\<close> sets the flag \<^verbatim>\<open>handlerCalled\<close>, the program
  state here, and writes the status 200; the other tests register \<^verbatim>\<open>func(c) {}\<close>.
\<close>

definition testHandler :: "bool HandlerFunc" where
  "testHandler c handlerCalled =
     (case Status c StatusOK of
        Inl p \<Rightarrow> Inl p
      | Inr w \<Rightarrow> Inr (w, True))"

definition emptyHandler :: "'u HandlerFunc" where
  "emptyHandler c u = Inr (Writer c, u)"

section \<open>Package handlers\<close>

record User =
  ID :: int
  Name :: string

text \<open>
  The values this program passes to \<^verbatim>\<open>JSON\<close> as \<^verbatim>\<open>data interface{}\<close>: a
  \<^verbatim>\<open>map[string]string\<close> (its entries as written), a \<^verbatim>\<open>[]User\<close>; and a channel, a value a
  caller can pass as well and \<^verbatim>\<open>encoding/json\<close> cannot encode.
\<close>

datatype payload =
    MapStringString "(string \<times> string) list"
  | Users "User list"
  | Channel

definition health_payload :: payload where
  "health_payload = MapStringString [(''status'', ''ok''), (''service'', ''HTTPGolang_Server'')]"

definition users_payload :: payload where
  "users_payload = Users [\<lparr>ID = 1, Name = ''Hanzala''\<rparr>, \<lparr>ID = 2, Name = ''Areeb''\<rparr>]"

definition created_payload :: payload where
  "created_payload = MapStringString [(''status'', ''user created successfully'')]"

definition HealthCheckHandler :: "(payload \<Rightarrow> string option) \<Rightarrow> 'u HandlerFunc" where
  "HealthCheckHandler marshal c u =
     map_sum id (\<lambda>w. (w, u)) (JSON marshal c StatusOK health_payload)"

definition GetUsersHandler :: "(payload \<Rightarrow> string option) \<Rightarrow> 'u HandlerFunc" where
  "GetUsersHandler marshal c u =
     map_sum id (\<lambda>w. (w, u)) (JSON marshal c StatusOK users_payload)"

definition CreateUserHandler :: "(payload \<Rightarrow> string option) \<Rightarrow> 'u HandlerFunc" where
  "CreateUserHandler marshal c u =
     map_sum id (\<lambda>w. (w, u)) (JSON marshal c StatusCreated created_payload)"

definition RegisterRoutes ::
  "(payload \<Rightarrow> string option) \<Rightarrow> 'u Router \<Rightarrow> panic + ('u Router \<times> 'u event list)" where
  "RegisterRoutes marshal r =
     (case GET r ''/health'' (HealthCheckHandler marshal) of
        Inl p \<Rightarrow> Inl p
      | Inr (r1, e1) \<Rightarrow>
          (case GET r1 ''/users'' (GetUsersHandler marshal) of
             Inl p \<Rightarrow> Inl p
           | Inr (r2, e2) \<Rightarrow>
               (case POST r2 ''/users'' (CreateUserHandler marshal) of
                  Inl p \<Rightarrow> Inl p
                | Inr (r3, e3) \<Rightarrow> Inr (r3, e1 @ e2 @ e3))))"

section \<open>Responses as a client reads them\<close>

text \<open>
  The headers of the recorded response (\<^verbatim>\<open>Result().Header\<close>): the snapshot taken when the
  status was written, the live map when none was.
\<close>

definition Result_Header :: "ResponseRecorder \<Rightarrow> Header" where
  "Result_Header rw = (case snapHeader rw of None \<Rightarrow> HeaderMap rw | Some h \<Rightarrow> h)"

text \<open>
  The round-trip law of the specification for one call of \<^verbatim>\<open>JSON\<close>: the call returns, the
  status is the one asked for, the Content-Type is \<^verbatim>\<open>application/json\<close> and the body
  deserialises to the payload. \<open>unmarshal\<close> is the decoder (\<open>None\<close> is its error).
\<close>

definition JSON_round_trip ::
  "('p \<Rightarrow> string option) \<Rightarrow> (string \<Rightarrow> 'p option) \<Rightarrow> Context \<Rightarrow> int \<Rightarrow> 'p \<Rightarrow> bool" where
  "JSON_round_trip marshal unmarshal c statusCode data =
     (case JSON marshal c statusCode data of
        Inl p \<Rightarrow> False
      | Inr w \<Rightarrow>
          Code w = statusCode \<and>
          Header_Get (Result_Header w) ''Content-Type'' = ''application/json'' \<and>
          unmarshal (Body w) = Some data)"

text \<open>
  What \<^verbatim>\<open>json.Marshal\<close> and \<^verbatim>\<open>json.Unmarshal\<close> give on the payloads above, as a table: the
  three payloads of the application (map keys sorted, no spaces) and the error for the
  channel. The table is the instance at which the theorems below are evaluated; the theorems
  themselves hold for every marshaller.
\<close>

definition sample_Marshal :: "payload \<Rightarrow> string option" where
  \<open>sample_Marshal v =
     (if v = health_payload then Some ''{"service":"HTTPGolang_Server","status":"ok"}''
      else if v = users_payload then Some ''[{"id":1,"name":"Hanzala"},{"id":2,"name":"Areeb"}]''
      else if v = created_payload then Some ''{"status":"user created successfully"}''
      else None)\<close>

definition sample_Unmarshal :: "string \<Rightarrow> payload option" where
  \<open>sample_Unmarshal s =
     (if s = ''{"service":"HTTPGolang_Server","status":"ok"}'' @ newline then Some health_payload
      else if s = ''[{"id":1,"name":"Hanzala"},{"id":2,"name":"Areeb"}]'' @ newline then Some users_payload
      else if s = ''{"status":"user created successfully"}'' @ newline then Some created_payload
      else None)\<close>

section \<open>The frame of dispatch\<close>

text \<open>
  C9. Dispatch never changes the router: for every request, matched or not, the router that
  \<^verbatim>\<open>ServeHTTP\<close> leaves, and so its route table, is the one it was given.
\<close>

theorem ServeHTTP_router_unchanged:
  "fst (ServeHTTP r w req u) = r \<and> routes (fst (ServeHTTP r w req u)) = routes r"
  by (simp add: ServeHTTP_def Let_def split: option.splits)

section \<open>Registration and lookup\<close>

text \<open>
  A router has a route table when it was made by \<^verbatim>\<open>New\<close>, and registration keeps it. On the
  zero \<^verbatim>\<open>Router\<close>, whose table is the nil map, \<^verbatim>\<open>addRoute\<close> panics at its first assignment.
\<close>

lemma addRoute_initialised:
  "routes r = Some t \<Longrightarrow>
   addRoute r method path handler =
     Inr (r\<lparr>routes := Some (t(method \<mapsto>
            (case t method of None \<Rightarrow> Map.empty | Some ph \<Rightarrow> ph)(path \<mapsto> handler)))\<rparr>,
          [EvLock, EvLog (''Registered route: '' @ method @ '' '' @ path), EvUnlock])"
  by (simp add: addRoute_def)

lemma New_initialised: "routes New = Some Map.empty"
  by (simp add: New_def)

lemma addRoute_nil: "routes r = None \<Longrightarrow> addRoute r method path handler = Inl NilMapAssignment"
  by (simp add: addRoute_def)

lemma addRoute_keeps_initialised:
  "addRoute r method path handler = Inr (r', evs) \<Longrightarrow> routes r' \<noteq> None"
  by (auto simp: addRoute_def split: option.splits)

lemma route_of_addRoute_same:
  "addRoute r method path handler = Inr (r', evs) \<Longrightarrow> route_of r' method path = Some handler"
  by (auto simp: addRoute_def route_of_def Let_def split: option.splits)

lemma route_of_addRoute_other:
  "addRoute r method path handler = Inr (r', evs) \<Longrightarrow> (m', p') \<noteq> (method, path) \<Longrightarrow>
   route_of r' m' p' = route_of r m' p'"
  by (auto simp: addRoute_def route_of_def Let_def split: option.splits if_splits)

lemma route_of_None_cases:
  "route_of r method path = None \<longleftrightarrow>
     routes r = None \<or>
     (\<exists>t. routes r = Some t \<and>
        (t method = None \<or> (\<exists>pathHandlers. t method = Some pathHandlers \<and> pathHandlers path = None)))"
  by (auto simp: route_of_def split: option.splits)

section \<open>Dispatch\<close>

lemma ServeHTTP_found:
  "route_of r (Method req) (Path (URL req)) = Some h \<Longrightarrow>
   ServeHTTP r w req u =
     (r, [EvRLock, EvInvoke h \<lparr>Writer = w, Request = req\<rparr>, EvRUnlock],
      h \<lparr>Writer = w, Request = req\<rparr> u)"
  by (auto simp: ServeHTTP_def route_of_def Let_def split: option.splits)

lemma ServeHTTP_missing:
  "route_of r (Method req) (Path (URL req)) = None \<Longrightarrow>
   ServeHTTP r w req u =
     (r, [EvRLock, EvRUnlock], map_sum id (\<lambda>w'. (w', u)) (NotFound w req))"
  by (auto simp: ServeHTTP_def route_of_def Let_def split: option.splits)

lemma NotFound_fresh:
  "\<not> wroteHeader w \<Longrightarrow>
   NotFound w req =
     Inr (w\<lparr>HeaderMap := (HeaderMap w)(''Content-Type'' \<mapsto> [''text/plain; charset=utf-8''],
                                       ''X-Content-Type-Options'' \<mapsto> [''nosniff'']),
            Code := 404, wroteHeader := True,
            snapHeader := Some ((HeaderMap w)(''Content-Type'' \<mapsto> [''text/plain; charset=utf-8''],
                                       ''X-Content-Type-Options'' \<mapsto> [''nosniff''])),
            Body := Body w @ ''404 page not found'' @ newline\<rparr>)"
  by (simp add: NotFound_def Error_def Let_def WriteHeader_def Write_def Header_Set_def StatusNotFound_def)

text \<open>
  C1. When the route table holds the handler \<open>h\<close> for the method and path of the request,
  \<^verbatim>\<open>ServeHTTP\<close> invokes \<open>h\<close> once, on the context made of the sink and the request, and
  invokes nothing else; what the request ends with is what that call of \<open>h\<close> returned, so
  dispatch ends after the handler has.
\<close>

theorem ServeHTTP_invokes_registered_once:
  assumes "route_of r (Method req) (Path (URL req)) = Some h"
  shows "ServeHTTP r w req u =
           (r, [EvRLock, EvInvoke h \<lparr>Writer = w, Request = req\<rparr>, EvRUnlock],
            h \<lparr>Writer = w, Request = req\<rparr> u)
         \<and> invoked (fst (snd (ServeHTTP r w req u))) = [(h, \<lparr>Writer = w, Request = req\<rparr>)]
         \<and> snd (snd (ServeHTTP r w req u)) = h \<lparr>Writer = w, Request = req\<rparr> u"
  using ServeHTTP_found [OF assms] by simp

theorem ServeHTTP_invokes_registered_once_witness:
  "GET New ''/test'' testHandler =
     Inr (\<lparr>routes = Some [''GET'' \<mapsto> [''/test'' \<mapsto> testHandler]]\<rparr>,
          [EvLock, EvLog ''Registered route: GET /test'', EvUnlock])
   \<and> route_of \<lparr>routes = Some [''GET'' \<mapsto> [''/test'' \<mapsto> testHandler]]\<rparr> ''GET'' ''/test''
       = Some testHandler
   \<and> ServeHTTP \<lparr>routes = Some [''GET'' \<mapsto> [''/test'' \<mapsto> testHandler]]\<rparr> NewRecorder
        \<lparr>Method = ''GET'', URL = \<lparr>Path = ''/test''\<rparr>\<rparr> False =
       (\<lparr>routes = Some [''GET'' \<mapsto> [''/test'' \<mapsto> testHandler]]\<rparr>,
        [EvRLock,
         EvInvoke testHandler
           \<lparr>Writer = NewRecorder, Request = \<lparr>Method = ''GET'', URL = \<lparr>Path = ''/test''\<rparr>\<rparr>\<rparr>,
         EvRUnlock],
        Inr (NewRecorder\<lparr>Code := 200, wroteHeader := True, snapHeader := Some Map.empty\<rparr>, True))"
proof -
  let ?r = "\<lparr>routes = Some [''GET'' \<mapsto> [''/test'' \<mapsto> testHandler]]\<rparr>"
  let ?req = "\<lparr>Method = ''GET'', URL = \<lparr>Path = ''/test''\<rparr>\<rparr>"
  have reg: "route_of ?r (Method ?req) (Path (URL ?req)) = Some testHandler"
    by (simp add: route_of_def)
  have run: "testHandler \<lparr>Writer = NewRecorder, Request = ?req\<rparr> False =
      Inr (NewRecorder\<lparr>Code := 200, wroteHeader := True, snapHeader := Some Map.empty\<rparr>, True)"
    by (simp add: testHandler_def Status_def WriteHeader_def NewRecorder_def StatusOK_def)
  have add: "GET New ''/test'' testHandler =
     Inr (?r, [EvLock, EvLog ''Registered route: GET /test'', EvUnlock])"
    by (simp add: GET_def addRoute_def New_def)
  from ServeHTTP_invokes_registered_once [OF reg, of NewRecorder False] run add reg
  show ?thesis by simp
qed

text \<open>
  C2. A request whose method and path have no entry in the route table (no table for the
  method, no entry for the path under it, or the path only under another method) gets the
  status 404 on a sink whose status was not written yet: no handler is invoked, nothing
  panics, and the response is the same in every case of a miss.
\<close>

theorem ServeHTTP_miss_404:
  assumes "route_of r (Method req) (Path (URL req)) = None" and "\<not> wroteHeader w"
  shows "\<exists>w'. ServeHTTP r w req u = (r, [EvRLock, EvRUnlock], Inr (w', u))
           \<and> invoked (fst (snd (ServeHTTP r w req u))) = []
           \<and> NotFound w req = Inr w'
           \<and> Code w' = 404
           \<and> Body w' = Body w @ ''404 page not found'' @ newline
           \<and> Header_Get (Result_Header w') ''Content-Type'' = ''text/plain; charset=utf-8''"
  using ServeHTTP_missing [OF assms(1), of w u] NotFound_fresh [OF assms(2), of req]
  by (simp add: Result_Header_def Header_Get_def)

theorem ServeHTTP_miss_404_witness:
  "(\<exists>w'. ServeHTTP \<lparr>routes = Some [''GET'' \<mapsto> [''/exists'' \<mapsto> emptyHandler],
                                     ''POST'' \<mapsto> [''/other'' \<mapsto> emptyHandler]]\<rparr> NewRecorder
          \<lparr>Method = ''PUT'', URL = \<lparr>Path = ''/exists''\<rparr>\<rparr> () =
          (\<lparr>routes = Some [''GET'' \<mapsto> [''/exists'' \<mapsto> emptyHandler],
                           ''POST'' \<mapsto> [''/other'' \<mapsto> emptyHandler]]\<rparr>,
           [EvRLock, EvRUnlock], Inr (w', ()))
         \<and> Code w' = 404 \<and> Body w' = ''404 page not found'' @ newline)
   \<and> (\<exists>w'. ServeHTTP \<lparr>routes = Some [''GET'' \<mapsto> [''/exists'' \<mapsto> emptyHandler],
                                     ''POST'' \<mapsto> [''/other'' \<mapsto> emptyHandler]]\<rparr> NewRecorder
          \<lparr>Method = ''GET'', URL = \<lparr>Path = ''/does-not-exist''\<rparr>\<rparr> () =
          (\<lparr>routes = Some [''GET'' \<mapsto> [''/exists'' \<mapsto> emptyHandler],
                           ''POST'' \<mapsto> [''/other'' \<mapsto> emptyHandler]]\<rparr>,
           [EvRLock, EvRUnlock], Inr (w', ()))
         \<and> Code w' = 404 \<and> Body w' = ''404 page not found'' @ newline)
   \<and> (\<exists>w'. ServeHTTP \<lparr>routes = Some [''GET'' \<mapsto> [''/exists'' \<mapsto> emptyHandler],
                                     ''POST'' \<mapsto> [''/other'' \<mapsto> emptyHandler]]\<rparr> NewRecorder
          \<lparr>Method = ''POST'', URL = \<lparr>Path = ''/exists''\<rparr>\<rparr> () =
          (\<lparr>routes = Some [''GET'' \<mapsto> [''/exists'' \<mapsto> emptyHandler],
                           ''POST'' \<mapsto> [''/other'' \<mapsto> emptyHandler]]\<rparr>,
           [EvRLock, EvRUnlock], Inr (w', ()))
         \<and> Code w' = 404 \<and> Body w' = ''404 page not found'' @ newline)"
proof -
  let ?r = "\<lparr>routes = Some [''GET'' \<mapsto> [''/exists'' \<mapsto> emptyHandler],
                              ''POST'' \<mapsto> [''/other'' \<mapsto> emptyHandler]]\<rparr> :: unit Router"
  have fresh: "\<not> wroteHeader NewRecorder" and body: "Body NewRecorder = []"
    by (simp_all add: NewRecorder_def)
  have m1: "route_of ?r (Method \<lparr>Method = ''PUT'', URL = \<lparr>Path = ''/exists''\<rparr>\<rparr>)
              (Path (URL \<lparr>Method = ''PUT'', URL = \<lparr>Path = ''/exists''\<rparr>\<rparr>)) = None"
    by (simp add: route_of_def)
  have m2: "route_of ?r (Method \<lparr>Method = ''GET'', URL = \<lparr>Path = ''/does-not-exist''\<rparr>\<rparr>)
              (Path (URL \<lparr>Method = ''GET'', URL = \<lparr>Path = ''/does-not-exist''\<rparr>\<rparr>)) = None"
    by (simp add: route_of_def)
  have m3: "route_of ?r (Method \<lparr>Method = ''POST'', URL = \<lparr>Path = ''/exists''\<rparr>\<rparr>)
              (Path (URL \<lparr>Method = ''POST'', URL = \<lparr>Path = ''/exists''\<rparr>\<rparr>)) = None"
    by (simp add: route_of_def)
  from ServeHTTP_miss_404 [OF m1 fresh, of "()"] ServeHTTP_miss_404 [OF m2 fresh, of "()"]
       ServeHTTP_miss_404 [OF m3 fresh, of "()"] body
  show ?thesis by auto
qed

text \<open>
  C3. On a router with a route table, registering \<open>h1\<close> and then \<open>h2\<close> for the same method
  and path succeeds both times; the table then holds \<open>h2\<close> for the pair, and a request with
  that method and path invokes \<open>h2\<close> alone.
\<close>

theorem addRoute_last_write_wins:
  assumes "routes r \<noteq> None"
  shows "\<exists>r1 e1 r2 e2.
           addRoute r method path h1 = Inr (r1, e1)
         \<and> addRoute r1 method path h2 = Inr (r2, e2)
         \<and> route_of r2 method path = Some h2
         \<and> ServeHTTP r2 w \<lparr>Method = method, URL = \<lparr>Path = path\<rparr>\<rparr> u =
             (r2, [EvRLock,
                   EvInvoke h2 \<lparr>Writer = w, Request = \<lparr>Method = method, URL = \<lparr>Path = path\<rparr>\<rparr>\<rparr>,
                   EvRUnlock],
              h2 \<lparr>Writer = w, Request = \<lparr>Method = method, URL = \<lparr>Path = path\<rparr>\<rparr>\<rparr> u)
         \<and> invoked (fst (snd (ServeHTTP r2 w \<lparr>Method = method, URL = \<lparr>Path = path\<rparr>\<rparr> u))) =
             [(h2, \<lparr>Writer = w, Request = \<lparr>Method = method, URL = \<lparr>Path = path\<rparr>\<rparr>\<rparr>)]"
proof -
  from assms obtain t where t: "routes r = Some t" by auto
  obtain r1 e1 where a1: "addRoute r method path h1 = Inr (r1, e1)"
    using addRoute_initialised [OF t] by blast
  from addRoute_keeps_initialised [OF a1] obtain t1 where t1: "routes r1 = Some t1" by auto
  obtain r2 e2 where a2: "addRoute r1 method path h2 = Inr (r2, e2)"
    using addRoute_initialised [OF t1] by blast
  let ?req = "\<lparr>Method = method, URL = \<lparr>Path = path\<rparr>\<rparr>"
  have reg: "route_of r2 method path = Some h2"
    by (rule route_of_addRoute_same [OF a2])
  then have "route_of r2 (Method ?req) (Path (URL ?req)) = Some h2" by simp
  from ServeHTTP_found [OF this, of w u] a1 a2 reg show ?thesis by simp
qed

theorem addRoute_last_write_wins_witness:
  "\<exists>r1 e1 r2 e2.
       addRoute New ''GET'' ''/test'' emptyHandler = Inr (r1, e1)
     \<and> addRoute r1 ''GET'' ''/test'' testHandler = Inr (r2, e2)
     \<and> route_of r2 ''GET'' ''/test'' = Some testHandler
     \<and> ServeHTTP r2 NewRecorder \<lparr>Method = ''GET'', URL = \<lparr>Path = ''/test''\<rparr>\<rparr> False =
         (r2, [EvRLock,
               EvInvoke testHandler
                 \<lparr>Writer = NewRecorder, Request = \<lparr>Method = ''GET'', URL = \<lparr>Path = ''/test''\<rparr>\<rparr>\<rparr>,
               EvRUnlock],
          Inr (NewRecorder\<lparr>Code := 200, wroteHeader := True, snapHeader := Some Map.empty\<rparr>, True))"
proof -
  have init: "routes (New :: bool Router) \<noteq> None" by (simp add: New_def)
  have run: "testHandler \<lparr>Writer = NewRecorder,
                          Request = \<lparr>Method = ''GET'', URL = \<lparr>Path = ''/test''\<rparr>\<rparr>\<rparr> False =
      Inr (NewRecorder\<lparr>Code := 200, wroteHeader := True, snapHeader := Some Map.empty\<rparr>, True)"
    by (simp add: testHandler_def Status_def WriteHeader_def NewRecorder_def StatusOK_def)
  from addRoute_last_write_wins [OF init, of "''GET''" "''/test''" emptyHandler testHandler
         NewRecorder False] run
  show ?thesis by auto
qed

text \<open>
  C7. \<^verbatim>\<open>addRoute\<close> checks neither argument: on a router with a route table, for every
  non-empty method and non-empty path, whatever they contain, it returns without a panic,
  the table then holds the handler for that pair, every other pair keeps what it had, and
  the only other effect is the log line between taking and releasing the write lock.
  \<^verbatim>\<open>GET\<close> and \<^verbatim>\<open>POST\<close> are \<^verbatim>\<open>addRoute\<close> at their method.
\<close>

theorem addRoute_no_validation:
  assumes "method \<noteq> []" and "path \<noteq> []" and "routes r \<noteq> None"
  shows "\<exists>r'. addRoute r method path handler =
                Inr (r', [EvLock, EvLog (''Registered route: '' @ method @ '' '' @ path), EvUnlock])
           \<and> route_of r' method path = Some handler
           \<and> (\<forall>m' p'. route_of r' m' p' =
                 (if (m', p') = (method, path) then Some handler else route_of r m' p'))
           \<and> GET r path handler = addRoute r ''GET'' path handler
           \<and> POST r path handler = addRoute r ''POST'' path handler"
proof -
  from assms(3) obtain t where t: "routes r = Some t" by auto
  obtain r' where a: "addRoute r method path handler =
      Inr (r', [EvLock, EvLog (''Registered route: '' @ method @ '' '' @ path), EvUnlock])"
    using addRoute_initialised [OF t] by blast
  have same: "route_of r' method path = Some handler"
    by (rule route_of_addRoute_same [OF a])
  have other: "route_of r' m' p' = route_of r m' p'" if "(m', p') \<noteq> (method, path)" for m' p'
    by (rule route_of_addRoute_other [OF a that])
  from a same other show ?thesis by (auto simp: GET_def POST_def)
qed

theorem addRoute_no_validation_witness:
  "\<exists>r'. addRoute New ''not a method'' ''no-slash//?x=%zz'' emptyHandler =
            Inr (r', [EvLock, EvLog ''Registered route: not a method no-slash//?x=%zz'', EvUnlock])
       \<and> route_of r' ''not a method'' ''no-slash//?x=%zz'' = Some (emptyHandler :: unit HandlerFunc)
       \<and> route_of r' ''GET'' ''/users'' = None"
proof -
  have init: "routes (New :: unit Router) \<noteq> None" by (simp add: New_def)
  have none: "route_of (New :: unit Router) ''GET'' ''/users'' = None"
    by (simp add: New_def route_of_def)
  from addRoute_no_validation [of "''not a method''" "''no-slash//?x=%zz''", OF _ _ init, of emptyHandler]
  obtain r' where r': "addRoute New ''not a method'' ''no-slash//?x=%zz'' emptyHandler =
            Inr (r', [EvLock, EvLog (''Registered route: '' @ ''not a method'' @ '' '' @ ''no-slash//?x=%zz''), EvUnlock])"
       "route_of r' ''not a method'' ''no-slash//?x=%zz'' = Some (emptyHandler :: unit HandlerFunc)"
       "\<forall>m' p'. route_of r' m' p' =
                 (if (m', p') = (''not a method'', ''no-slash//?x=%zz'') then Some emptyHandler else route_of New m' p')"
    by auto
  from r'(3) none have "route_of r' ''GET'' ''/users'' = None" by simp
  with r'(1,2) show ?thesis by auto
qed

text \<open>
  C10. Nothing asks for a non-empty method or path: on a router with a route table,
  registering a handler with an empty method, an empty path or both succeeds, and a request
  with exactly that method and path is dispatched to the handler.
\<close>

theorem addRoute_empty_strings:
  assumes "method = [] \<or> path = []" and "routes r \<noteq> None"
  shows "\<exists>r'. addRoute r method path handler =
                Inr (r', [EvLock, EvLog (''Registered route: '' @ method @ '' '' @ path), EvUnlock])
           \<and> route_of r' method path = Some handler
           \<and> ServeHTTP r' w \<lparr>Method = method, URL = \<lparr>Path = path\<rparr>\<rparr> u =
               (r', [EvRLock,
                     EvInvoke handler
                       \<lparr>Writer = w, Request = \<lparr>Method = method, URL = \<lparr>Path = path\<rparr>\<rparr>\<rparr>,
                     EvRUnlock],
                handler \<lparr>Writer = w, Request = \<lparr>Method = method, URL = \<lparr>Path = path\<rparr>\<rparr>\<rparr> u)"
proof -
  from assms(2) obtain t where t: "routes r = Some t" by auto
  obtain r' where a: "addRoute r method path handler =
      Inr (r', [EvLock, EvLog (''Registered route: '' @ method @ '' '' @ path), EvUnlock])"
    using addRoute_initialised [OF t] by blast
  let ?req = "\<lparr>Method = method, URL = \<lparr>Path = path\<rparr>\<rparr>"
  have same: "route_of r' method path = Some handler"
    by (rule route_of_addRoute_same [OF a])
  then have "route_of r' (Method ?req) (Path (URL ?req)) = Some handler" by simp
  from ServeHTTP_found [OF this, of w u] a same show ?thesis by simp
qed

theorem addRoute_empty_strings_witness:
  "\<exists>r'. addRoute New [] [] testHandler =
            Inr (r', [EvLock, EvLog ''Registered route:  '', EvUnlock])
       \<and> route_of r' [] [] = Some testHandler
       \<and> ServeHTTP r' NewRecorder \<lparr>Method = [], URL = \<lparr>Path = []\<rparr>\<rparr> False =
           (r', [EvRLock,
                 EvInvoke testHandler
                   \<lparr>Writer = NewRecorder, Request = \<lparr>Method = [], URL = \<lparr>Path = []\<rparr>\<rparr>\<rparr>,
                 EvRUnlock],
            Inr (NewRecorder\<lparr>Code := 200, wroteHeader := True, snapHeader := Some Map.empty\<rparr>, True))"
proof -
  have init: "routes (New :: bool Router) \<noteq> None" by (simp add: New_def)
  have run: "testHandler \<lparr>Writer = NewRecorder, Request = \<lparr>Method = [], URL = \<lparr>Path = []\<rparr>\<rparr>\<rparr> False =
      Inr (NewRecorder\<lparr>Code := 200, wroteHeader := True, snapHeader := Some Map.empty\<rparr>, True)"
    by (simp add: testHandler_def Status_def WriteHeader_def NewRecorder_def StatusOK_def)
  from addRoute_empty_strings [of "[]" "[]", OF _ init, of testHandler NewRecorder False] run
  show ?thesis by auto
qed

section \<open>The read lock and the handler\<close>




section \<open>JSON responses\<close>

lemma WriteHeader_fresh:
  "\<not> wroteHeader rw \<Longrightarrow> 100 \<le> code \<Longrightarrow> code \<le> 999 \<Longrightarrow>
   WriteHeader rw code =
     Inr (rw\<lparr>Code := code, wroteHeader := True, snapHeader := Some (HeaderMap rw)\<rparr>)"
  by (simp add: WriteHeader_def)

lemma WriteHeader_again: "wroteHeader rw \<Longrightarrow> WriteHeader rw code = Inr rw"
  by (simp add: WriteHeader_def)

lemma WriteHeader_invalid:
  "\<not> wroteHeader rw \<Longrightarrow> code < 100 \<or> code > 999 \<Longrightarrow>
   WriteHeader rw code = Inl (InvalidWriteHeaderCode code)"
  by (simp add: WriteHeader_def)

lemma Write_after_header:
  "wroteHeader rw \<Longrightarrow>
   Write rw buf = Inr (rw\<lparr>Body := Body rw @ buf\<rparr>, \<not> bodyAllowedForStatus (Code rw))"
  by (simp add: Write_def WriteHeader_def Let_def)

lemma JSON_encoded:
  assumes "\<not> wroteHeader (Writer c)" and "100 \<le> statusCode" and "statusCode \<le> 999"
    and "bodyAllowedForStatus statusCode" and "marshal data = Some b"
  shows "JSON marshal c statusCode data =
     Inr ((Writer c)\<lparr>HeaderMap := (HeaderMap (Writer c))(''Content-Type'' \<mapsto> [''application/json'']),
            Code := statusCode, wroteHeader := True,
            snapHeader := Some ((HeaderMap (Writer c))(''Content-Type'' \<mapsto> [''application/json''])),
            Body := Body (Writer c) @ b @ newline\<rparr>)"
  using assms
  by (simp add: JSON_def Let_def Encode_def WriteHeader_fresh Write_after_header Header_Set_def)

lemma JSON_not_encoded:
  assumes "\<not> wroteHeader (Writer c)" and "100 \<le> statusCode" and "statusCode \<le> 999"
    and "marshal data = None"
  shows "JSON marshal c statusCode data =
     Inr ((Writer c)\<lparr>HeaderMap := (HeaderMap (Writer c))
               (''Content-Type'' \<mapsto> [''text/plain; charset=utf-8''],
                ''X-Content-Type-Options'' \<mapsto> [''nosniff'']),
            Code := statusCode, wroteHeader := True,
            snapHeader := Some ((HeaderMap (Writer c))(''Content-Type'' \<mapsto> [''application/json''])),
            Body := Body (Writer c) @ ''Error encoding JSON response'' @ newline\<rparr>)"
  using assms
  by (simp add: JSON_def Let_def Encode_def Error_def WriteHeader_fresh WriteHeader_again
      Write_after_header Header_Set_def)

lemma JSON_body_not_allowed:
  assumes "\<not> wroteHeader (Writer c)" and "100 \<le> statusCode" and "statusCode \<le> 999"
    and "\<not> bodyAllowedForStatus statusCode" and "marshal data = Some b"
  shows "JSON marshal c statusCode data =
     Inr ((Writer c)\<lparr>HeaderMap := (HeaderMap (Writer c))
               (''Content-Type'' \<mapsto> [''text/plain; charset=utf-8''],
                ''X-Content-Type-Options'' \<mapsto> [''nosniff'']),
            Code := statusCode, wroteHeader := True,
            snapHeader := Some ((HeaderMap (Writer c))(''Content-Type'' \<mapsto> [''application/json''])),
            Body := Body (Writer c) @ b @ newline @ ''Error encoding JSON response'' @ newline\<rparr>)"
  using assms
  by (simp add: JSON_def Let_def Encode_def Error_def WriteHeader_fresh WriteHeader_again
      Write_after_header Header_Set_def)

lemma JSON_invalid_code:
  assumes "\<not> wroteHeader (Writer c)" and "statusCode < 100 \<or> statusCode > 999"
  shows "JSON marshal c statusCode data = Inl (InvalidWriteHeaderCode statusCode)"
  using assms by (simp add: JSON_def Let_def WriteHeader_invalid)

text \<open>
  C4, as the specification states it, fails for some status codes and some payloads. A
  status code outside 100..999 makes \<^verbatim>\<open>WriteHeader\<close> panic, so \<^verbatim>\<open>JSON(0, payload)\<close> produces
  no response; a payload that cannot be encoded, such as a channel, gets the text
  \<^verbatim>\<open>Error encoding JSON response\<close> as its body, which does not deserialise to the payload;
  and at a status that allows no body, such as 204, the write of the encoding returns
  \<^verbatim>\<open>ErrBodyNotAllowed\<close>, so the same text follows the encoding in the recorded body.
\<close>

theorem JSON_round_trip_counterexample:
  "JSON sample_Marshal
      \<lparr>Writer = NewRecorder, Request = \<lparr>Method = ''GET'', URL = \<lparr>Path = ''/health''\<rparr>\<rparr>\<rparr>
      0 health_payload = Inl (InvalidWriteHeaderCode 0)
   \<and> \<not> JSON_round_trip sample_Marshal sample_Unmarshal
         \<lparr>Writer = NewRecorder, Request = \<lparr>Method = ''GET'', URL = \<lparr>Path = ''/health''\<rparr>\<rparr>\<rparr>
         0 health_payload
   \<and> map_sum id Body
         (JSON sample_Marshal
            \<lparr>Writer = NewRecorder, Request = \<lparr>Method = ''GET'', URL = \<lparr>Path = ''/health''\<rparr>\<rparr>\<rparr>
            200 Channel) = Inr (''Error encoding JSON response'' @ newline)
   \<and> \<not> JSON_round_trip sample_Marshal sample_Unmarshal
         \<lparr>Writer = NewRecorder, Request = \<lparr>Method = ''GET'', URL = \<lparr>Path = ''/health''\<rparr>\<rparr>\<rparr>
         200 Channel
   \<and> map_sum id Body
         (JSON sample_Marshal
            \<lparr>Writer = NewRecorder, Request = \<lparr>Method = ''GET'', URL = \<lparr>Path = ''/health''\<rparr>\<rparr>\<rparr>
            204 health_payload) =
       Inr (''{\"service\":\"HTTPGolang_Server\",\"status\":\"ok\"}'' @ newline
            @ ''Error encoding JSON response'' @ newline)
   \<and> \<not> JSON_round_trip sample_Marshal sample_Unmarshal
         \<lparr>Writer = NewRecorder, Request = \<lparr>Method = ''GET'', URL = \<lparr>Path = ''/health''\<rparr>\<rparr>\<rparr>
         204 health_payload"
proof -
  let ?c = "\<lparr>Writer = NewRecorder, Request = \<lparr>Method = ''GET'', URL = \<lparr>Path = ''/health''\<rparr>\<rparr>\<rparr>"
  have fresh: "\<not> wroteHeader (Writer ?c)" by (simp add: NewRecorder_def)
  have chan: "sample_Marshal Channel = None"
    by (simp add: sample_Marshal_def health_payload_def users_payload_def created_payload_def)
  have bad: "JSON sample_Marshal ?c 0 health_payload = Inl (InvalidWriteHeaderCode 0)"
    using fresh by (simp add: JSON_invalid_code)
  have err: "JSON sample_Marshal ?c 200 Channel =
     Inr ((Writer ?c)\<lparr>HeaderMap := (HeaderMap (Writer ?c))
               (''Content-Type'' \<mapsto> [''text/plain; charset=utf-8''],
                ''X-Content-Type-Options'' \<mapsto> [''nosniff'']),
            Code := 200, wroteHeader := True,
            snapHeader := Some ((HeaderMap (Writer ?c))(''Content-Type'' \<mapsto> [''application/json''])),
            Body := Body (Writer ?c) @ ''Error encoding JSON response'' @ newline\<rparr>)"
    using fresh chan by (simp add: JSON_not_encoded)
  have undec: "sample_Unmarshal (''Error encoding JSON response'' @ newline) = None"
    by (simp add: sample_Unmarshal_def newline_def)
  have enc: "sample_Marshal health_payload = Some ''{\"service\":\"HTTPGolang_Server\",\"status\":\"ok\"}''"
    by (simp add: sample_Marshal_def)
  have nobody: "\<not> bodyAllowedForStatus 204"
    by (simp add: bodyAllowedForStatus_def)
  have both: "JSON sample_Marshal ?c 204 health_payload =
     Inr ((Writer ?c)\<lparr>HeaderMap := (HeaderMap (Writer ?c))
               (''Content-Type'' \<mapsto> [''text/plain; charset=utf-8''],
                ''X-Content-Type-Options'' \<mapsto> [''nosniff'']),
            Code := 204, wroteHeader := True,
            snapHeader := Some ((HeaderMap (Writer ?c))(''Content-Type'' \<mapsto> [''application/json''])),
            Body := Body (Writer ?c) @ ''{\"service\":\"HTTPGolang_Server\",\"status\":\"ok\"}'' @ newline
                    @ ''Error encoding JSON response'' @ newline\<rparr>)"
    using fresh enc nobody by (simp add: JSON_body_not_allowed)
  have undec2: "sample_Unmarshal
      (''{\"service\":\"HTTPGolang_Server\",\"status\":\"ok\"}'' @ newline
       @ ''Error encoding JSON response'' @ newline) = None"
    by (simp add: sample_Unmarshal_def newline_def)
  show ?thesis
    using bad err undec both undec2 by (simp add: JSON_round_trip_def NewRecorder_def)
qed

text \<open>
  C4, amended. For every status code from 100 to 999 that allows a body (none of 1xx, 204
  and 304) and every payload that the marshaller encodes, \<^verbatim>\<open>JSON(statusCode, payload)\<close> on
  a sink not yet written to produces a response
  whose status is \<open>statusCode\<close>, whose Content-Type is \<^verbatim>\<open>application/json\<close> and whose body is
  the encoding followed by a newline; so the body deserialises to the payload with every
  decoder that inverts the marshaller on it. The payload \<^verbatim>\<open>{"status":"ok","service":"X"}\<close> with
  the status 200 is one instance.
\<close>

theorem JSON_round_trip_encodable:
  assumes "100 \<le> statusCode" and "statusCode \<le> 999" and "bodyAllowedForStatus statusCode"
    and "\<not> wroteHeader (Writer c)" and "Body (Writer c) = []"
    and "marshal data = Some b" and "unmarshal (b @ newline) = Some data"
  shows "\<exists>w. JSON marshal c statusCode data = Inr w
           \<and> Code w = statusCode
           \<and> Header_Get (Result_Header w) ''Content-Type'' = ''application/json''
           \<and> Header_Get (HeaderMap w) ''Content-Type'' = ''application/json''
           \<and> Body w = b @ newline
           \<and> unmarshal (Body w) = Some data
           \<and> JSON_round_trip marshal unmarshal c statusCode data"
  using assms
  by (simp add: JSON_encoded JSON_round_trip_def Result_Header_def Header_Get_def)

theorem JSON_round_trip_encodable_witness:
  \<open>\<exists>w. JSON sample_Marshal
          \<lparr>Writer = NewRecorder, Request = \<lparr>Method = ''GET'', URL = \<lparr>Path = ''/health''\<rparr>\<rparr>\<rparr>
          200 (MapStringString [(''status'', ''ok''), (''service'', ''HTTPGolang_Server'')]) = Inr w
       \<and> Code w = 200
       \<and> Header_Get (Result_Header w) ''Content-Type'' = ''application/json''
       \<and> Body w = ''{"service":"HTTPGolang_Server","status":"ok"}'' @ newline
       \<and> sample_Unmarshal (Body w) =
           Some (MapStringString [(''status'', ''ok''), (''service'', ''HTTPGolang_Server'')])\<close>
proof -
  let ?c = "\<lparr>Writer = NewRecorder, Request = \<lparr>Method = ''GET'', URL = \<lparr>Path = ''/health''\<rparr>\<rparr>\<rparr>"
  let ?p = "MapStringString [(''status'', ''ok''), (''service'', ''HTTPGolang_Server'')]"
  have fresh: "\<not> wroteHeader (Writer ?c)" and empty: "Body (Writer ?c) = []"
    by (simp_all add: NewRecorder_def)
  have enc: \<open>sample_Marshal ?p = Some ''{"service":"HTTPGolang_Server","status":"ok"}''\<close>
    by (simp add: sample_Marshal_def health_payload_def)
  have dec: \<open>sample_Unmarshal (''{"service":"HTTPGolang_Server","status":"ok"}'' @ newline) = Some ?p\<close>
    by (simp add: sample_Unmarshal_def health_payload_def)
  have lo: "(100::int) \<le> 200" and hi: "(200::int) \<le> 999" by simp_all
  have allowed: "bodyAllowedForStatus 200" by (simp add: bodyAllowedForStatus_def)
  from JSON_round_trip_encodable [of 200 ?c sample_Marshal ?p _ sample_Unmarshal,
         OF lo hi allowed fresh empty enc dec]
  show ?thesis by auto
qed

section \<open>An encoding error\<close>

text \<open>
  C5. The code writes the status before it encodes. With the channel as payload, which the
  marshaller rejects, \<^verbatim>\<open>JSON(200, payload)\<close> leaves the status 200 on the sink: the 500 that
  \<^verbatim>\<open>http.Error\<close> writes afterwards comes second and is ignored. Only the body and the live
  header map carry the error; the headers of the response stay \<^verbatim>\<open>application/json\<close>.
\<close>

theorem JSON_encoding_error_keeps_status:
  "\<exists>w. JSON sample_Marshal
          \<lparr>Writer = NewRecorder, Request = \<lparr>Method = ''GET'', URL = \<lparr>Path = ''/health''\<rparr>\<rparr>\<rparr>
          StatusOK Channel = Inr w
       \<and> Code w = 200
       \<and> Code w \<noteq> StatusInternalServerError
       \<and> Body w = ''Error encoding JSON response'' @ newline
       \<and> Header_Get (Result_Header w) ''Content-Type'' = ''application/json''
       \<and> Header_Get (HeaderMap w) ''Content-Type'' = ''text/plain; charset=utf-8''"
proof -
  let ?c = "\<lparr>Writer = NewRecorder, Request = \<lparr>Method = ''GET'', URL = \<lparr>Path = ''/health''\<rparr>\<rparr>\<rparr>"
  have fresh: "\<not> wroteHeader (Writer ?c)" by (simp add: NewRecorder_def)
  have chan: "sample_Marshal Channel = None"
    by (simp add: sample_Marshal_def health_payload_def users_payload_def created_payload_def)
  have "JSON sample_Marshal ?c 200 Channel =
     Inr ((Writer ?c)\<lparr>HeaderMap := (HeaderMap (Writer ?c))
               (''Content-Type'' \<mapsto> [''text/plain; charset=utf-8''],
                ''X-Content-Type-Options'' \<mapsto> [''nosniff'']),
            Code := 200, wroteHeader := True,
            snapHeader := Some ((HeaderMap (Writer ?c))(''Content-Type'' \<mapsto> [''application/json''])),
            Body := Body (Writer ?c) @ ''Error encoding JSON response'' @ newline\<rparr>)"
    using fresh chan by (simp add: JSON_not_encoded)
  then show ?thesis
    by (simp add: StatusOK_def StatusInternalServerError_def NewRecorder_def
        Result_Header_def Header_Get_def)
qed

section \<open>The routes of the application\<close>

lemma RegisterRoutes_New:
  "RegisterRoutes marshal New =
     Inr (\<lparr>routes = Some [''GET'' \<mapsto> [''/health'' \<mapsto> HealthCheckHandler marshal,
                                       ''/users'' \<mapsto> GetUsersHandler marshal],
                           ''POST'' \<mapsto> [''/users'' \<mapsto> CreateUserHandler marshal]]\<rparr>,
          [EvLock, EvLog ''Registered route: GET /health'', EvUnlock,
           EvLock, EvLog ''Registered route: GET /users'', EvUnlock,
           EvLock, EvLog ''Registered route: POST /users'', EvUnlock])"
  by (simp add: RegisterRoutes_def GET_def POST_def addRoute_def New_def)

lemma HealthCheckHandler_fresh:
  assumes "marshal health_payload = Some b"
  shows "HealthCheckHandler marshal \<lparr>Writer = NewRecorder, Request = req\<rparr> u =
     Inr (NewRecorder\<lparr>HeaderMap := [''Content-Type'' \<mapsto> [''application/json'']],
            Code := 200, wroteHeader := True,
            snapHeader := Some [''Content-Type'' \<mapsto> [''application/json'']],
            Body := b @ newline\<rparr>, u)"
proof -
  have fresh: "\<not> wroteHeader (Writer \<lparr>Writer = NewRecorder, Request = req\<rparr>)"
    by (simp add: NewRecorder_def)
  have "JSON marshal \<lparr>Writer = NewRecorder, Request = req\<rparr> 200 health_payload =
     Inr (NewRecorder\<lparr>HeaderMap := [''Content-Type'' \<mapsto> [''application/json'']],
            Code := 200, wroteHeader := True,
            snapHeader := Some [''Content-Type'' \<mapsto> [''application/json'']],
            Body := b @ newline\<rparr>)"
    using fresh assms
    by (simp add: JSON_encoded bodyAllowedForStatus_def) (simp add: NewRecorder_def)
  then show ?thesis by (simp add: HealthCheckHandler_def StatusOK_def)
qed

text \<open>
  C6. With the routes of the application registered on a new router, as \<^verbatim>\<open>main\<close> does, a
  \<^verbatim>\<open>GET /health\<close> on a new sink is dispatched to \<^verbatim>\<open>HealthCheckHandler\<close> and ends with the status
  200 and, as body, the encoding of the map \<^verbatim>\<open>{"status":"ok","service":"HTTPGolang_Server"}\<close>
  and a newline, which deserialises to that map. The marshaller is any that encodes the map,
  the decoder any that inverts it there.
\<close>

theorem GET_health_scenario:
  assumes "marshal health_payload = Some b" and "unmarshal (b @ newline) = Some health_payload"
  shows "\<exists>r e w.
           RegisterRoutes marshal New = Inr (r, e)
         \<and> ServeHTTP r NewRecorder \<lparr>Method = ''GET'', URL = \<lparr>Path = ''/health''\<rparr>\<rparr> u =
             (r, [EvRLock,
                  EvInvoke (HealthCheckHandler marshal)
                    \<lparr>Writer = NewRecorder,
                       Request = \<lparr>Method = ''GET'', URL = \<lparr>Path = ''/health''\<rparr>\<rparr>\<rparr>,
                  EvRUnlock],
              Inr (w, u))
         \<and> Code w = 200
         \<and> Header_Get (Result_Header w) ''Content-Type'' = ''application/json''
         \<and> Body w = b @ newline
         \<and> unmarshal (Body w) = Some health_payload"
proof -
  let ?r = "\<lparr>routes = Some [''GET'' \<mapsto> [''/health'' \<mapsto> HealthCheckHandler marshal,
                                         ''/users'' \<mapsto> GetUsersHandler marshal],
                              ''POST'' \<mapsto> [''/users'' \<mapsto> CreateUserHandler marshal]]\<rparr> :: 'a Router"
  let ?req = "\<lparr>Method = ''GET'', URL = \<lparr>Path = ''/health''\<rparr>\<rparr>"
  have reg: "route_of ?r (Method ?req) (Path (URL ?req)) = Some (HealthCheckHandler marshal)"
    by (simp add: route_of_def)
  show ?thesis
    using RegisterRoutes_New [of marshal, where ?'a = 'a]
      ServeHTTP_found [OF reg, of NewRecorder u]
      HealthCheckHandler_fresh [of marshal b ?req u, OF assms(1)] assms(2)
    by (simp add: Result_Header_def Header_Get_def)
qed

theorem GET_health_scenario_witness:
  \<open>\<exists>r e w.
       RegisterRoutes sample_Marshal New = Inr (r, e)
     \<and> ServeHTTP r NewRecorder \<lparr>Method = ''GET'', URL = \<lparr>Path = ''/health''\<rparr>\<rparr> () =
         (r, [EvRLock,
              EvInvoke (HealthCheckHandler sample_Marshal)
                \<lparr>Writer = NewRecorder,
                   Request = \<lparr>Method = ''GET'', URL = \<lparr>Path = ''/health''\<rparr>\<rparr>\<rparr>,
              EvRUnlock],
          Inr (w, ()))
     \<and> Code w = 200
     \<and> Body w = ''{"service":"HTTPGolang_Server","status":"ok"}'' @ newline
     \<and> sample_Unmarshal (Body w) =
         Some (MapStringString [(''status'', ''ok''), (''service'', ''HTTPGolang_Server'')])\<close>
proof -
  have enc: \<open>sample_Marshal health_payload = Some ''{"service":"HTTPGolang_Server","status":"ok"}''\<close>
    by (simp add: sample_Marshal_def)
  have dec: \<open>sample_Unmarshal (''{"service":"HTTPGolang_Server","status":"ok"}'' @ newline)
      = Some health_payload\<close>
    by (simp add: sample_Unmarshal_def)
  from GET_health_scenario [of sample_Marshal _ sample_Unmarshal, where u = "()", OF enc dec]
  show ?thesis by (auto simp: health_payload_def)
qed

end
